theory Spec2Isabelle
  imports Complex_Main "HOL-Library.Word"
begin

section \<open>Shape inference of the Similarity operations (src/ops/similarity_op.cpp)\<close>

subsection \<open>The shape-inference context of the host framework\<close>

text \<open>
  The shape functions of \<^verbatim>\<open>similarity_op.cpp\<close> run against the framework's
  \<^verbatim>\<open>shape_inference::InferenceContext\<close>. A dimension is either a known extent or
  unknown; a shape either has unknown rank or is a list of dimensions.
  A \<^verbatim>\<open>Status\<close> that is not OK is a value \<open>Inl e\<close>. Indexing a \<^verbatim>\<open>std::vector\<close>
  outside its size is undefined behaviour in C++; the model makes it the
  distinguished outcome \<open>OutOfRangeAccess\<close>, so that it is neither a success nor an
  \<open>InvalidArgument\<close>.
\<close>

datatype dimension = UnknownDim | Known nat

datatype shape = UnknownRank | Shape "dimension list"

datatype error = InvalidArgument | OutOfRangeAccess

type_synonym int32 = "32 word"

text \<open>
  The attributes the shape function reads with \<^verbatim>\<open>GetAttr\<close>. Every attribute is
  registered with a default, so the lookup itself always finds a value.
\<close>

record node_attrs =
  attr_blocks :: "int32 list"
  attr_strides :: "int32 list"
  attr_padding :: "int32 list"

record InferenceContext =
  inputs :: "shape list"
  outputs :: "nat \<rightharpoonup> shape"
  attrs :: node_attrs

text \<open>\<^verbatim>\<open>c->input(idx)\<close>: the shape of input \<open>idx\<close>.\<close>

definition input :: "InferenceContext \<Rightarrow> nat \<Rightarrow> error + shape" where
  "input c idx = (if idx < length (inputs c) then Inr (inputs c ! idx) else Inl OutOfRangeAccess)"

text \<open>\<^verbatim>\<open>c->set_output(idx, shape)\<close>.\<close>

definition set_output :: "InferenceContext \<Rightarrow> nat \<Rightarrow> shape \<Rightarrow> InferenceContext" where
  "set_output c idx s = c\<lparr>outputs := (outputs c)(idx \<mapsto> s)\<rparr>"

text \<open>
  \<^verbatim>\<open>c->WithRank(shape, rank, &out)\<close>: a shape of that rank is returned as it is, a
  shape of unknown rank becomes \<open>rank\<close> unknown dimensions, any other rank is an
  \<open>InvalidArgument\<close>.
\<close>

definition WithRank :: "shape \<Rightarrow> nat \<Rightarrow> error + shape" where
  "WithRank s rank =
     (case s of
        UnknownRank \<Rightarrow> Inr (Shape (replicate rank UnknownDim))
      | Shape ds \<Rightarrow> if length ds = rank then Inr (Shape ds) else Inl InvalidArgument)"

text \<open>\<^verbatim>\<open>c->Dim(shape, idx)\<close>: unknown for a shape of unknown rank.\<close>

definition Dim :: "shape \<Rightarrow> nat \<Rightarrow> dimension" where
  "Dim s idx = (case s of UnknownRank \<Rightarrow> UnknownDim | Shape ds \<Rightarrow> ds ! idx)"

text \<open>
  \<^verbatim>\<open>c->Merge(d0, d1, &out)\<close> on dimensions: an unknown dimension merges with
  anything, two known dimensions merge when they are equal.
\<close>

definition Merge :: "dimension \<Rightarrow> dimension \<Rightarrow> error + dimension" where
  "Merge d0 d1 =
     (case d1 of
        UnknownDim \<Rightarrow> Inr d0
      | Known v1 \<Rightarrow>
          (case d0 of
             UnknownDim \<Rightarrow> Inr d1
           | Known v0 \<Rightarrow> if v0 = v1 then Inr d0 else Inl InvalidArgument))"

text \<open>\<^verbatim>\<open>c->MakeShape({...})\<close>.\<close>

definition MakeShape :: "dimension list \<Rightarrow> shape" where
  "MakeShape ds = Shape ds"

text \<open>\<^verbatim>\<open>padding[k]\<close> on a vector of \<^verbatim>\<open>int32\<close>.\<close>

definition vector_at :: "int32 list \<Rightarrow> nat \<Rightarrow> error + int32" where
  "vector_at v k = (if k < length v then Inr (v ! k) else Inl OutOfRangeAccess)"

text \<open>
  The type of \<^verbatim>\<open>simnets_tf::GetSimnetsOutputSizeFromDims\<close> (declared in
  \<^verbatim>\<open>utils/im2col.hpp\<close>): input extent, filter extent, stride, padding and a flag
  to an output extent or an error. The shape function below takes it as a
  parameter.
\<close>

type_synonym output_size_fn =
  "dimension \<Rightarrow> dimension \<Rightarrow> int32 \<Rightarrow> int32 \<Rightarrow> bool \<Rightarrow> error + dimension"

subsection \<open>SimilarityShape\<close>

text \<open>
  The macro \<^verbatim>\<open>TF_RETURN_IF_ERROR(expr)\<close>: a status that is not OK is returned at
  once, otherwise the rest of the function runs with the value computed.
\<close>

definition TF_RETURN_IF_ERROR :: "error + 'a \<Rightarrow> ('a \<Rightarrow> error + 'b) \<Rightarrow> error + 'b" where
  "TF_RETURN_IF_ERROR r rest = (case r of Inl e \<Rightarrow> Inl e | Inr x \<Rightarrow> rest x)"

text \<open>
  Lines 8 to 53. C++ evaluates the argument \<^verbatim>\<open>padding[0]\<close> before the call of the
  helper, and \<^verbatim>\<open>padding[1]\<close> only after the first call has returned OK. The
  attribute \<^verbatim>\<open>blocks\<close> is read and not used afterwards.
\<close>

definition SimilarityShape :: "output_size_fn \<Rightarrow> InferenceContext \<Rightarrow> error + InferenceContext" where
  "SimilarityShape GetOutputSize c =
     TF_RETURN_IF_ERROR (input c 0) (\<lambda>in0.
     TF_RETURN_IF_ERROR (WithRank in0 4) (\<lambda>input_shape.
     TF_RETURN_IF_ERROR (input c 1) (\<lambda>in1.
     TF_RETURN_IF_ERROR (WithRank in1 4) (\<lambda>template_shape.
     (let strides = attr_strides (attrs c);
          blocks = attr_blocks (attrs c);
          padding = attr_padding (attrs c)
      in
      if length strides \<noteq> 2 then Inl InvalidArgument
      else
        (let stride_rows = strides ! 0;
             stride_cols = strides ! 1;
             batch_size_dim = Dim input_shape 0;
             in_rows_dim = Dim input_shape 2;
             in_cols_dim = Dim input_shape 3;
             filter_rows_dim = Dim template_shape 2;
             filter_cols_dim = Dim template_shape 3;
             output_depth_dim = Dim template_shape 0
         in
         TF_RETURN_IF_ERROR (Merge (Dim input_shape 1) (Dim template_shape 1)) (\<lambda>unused.
         TF_RETURN_IF_ERROR (vector_at padding 0) (\<lambda>padding0.
         TF_RETURN_IF_ERROR
           (GetOutputSize in_rows_dim filter_rows_dim stride_rows padding0 True) (\<lambda>output_rows.
         TF_RETURN_IF_ERROR (vector_at padding 1) (\<lambda>padding1.
         TF_RETURN_IF_ERROR
           (GetOutputSize in_cols_dim filter_cols_dim stride_cols padding1 True) (\<lambda>output_cols.
         Inr (set_output c 0
                (MakeShape [batch_size_dim, output_depth_dim, output_rows, output_cols]))
         )))))))))))"

subsection \<open>SimilarityParametersGradShape and UnchangedShape\<close>

text \<open>Lines 55 to 59.\<close>

definition SimilarityParametersGradShape :: "InferenceContext \<Rightarrow> error + InferenceContext" where
  "SimilarityParametersGradShape c =
     TF_RETURN_IF_ERROR (input c 1) (\<lambda>templates.
     (let c1 = set_output c 0 templates in
      TF_RETURN_IF_ERROR (input c1 2) (\<lambda>weights.
      Inr (set_output c1 1 weights))))"

text \<open>
  \<^verbatim>\<open>shape_inference::UnchangedShape\<close> of the framework, the shape function of
  \<^verbatim>\<open>SimilarityInputGrad\<close>: output 0 gets the shape of input 0.
\<close>

definition UnchangedShape :: "InferenceContext \<Rightarrow> error + InferenceContext" where
  "UnchangedShape c =
     TF_RETURN_IF_ERROR (input c 0) (\<lambda>s. Inr (set_output c 0 s))"

subsection \<open>The output-size helper\<close>

text \<open>
  Modelled from the spec: \<^verbatim>\<open>simnets_tf::GetSimnetsOutputSizeFromDims\<close> is declared
  in \<^verbatim>\<open>utils/im2col.hpp\<close>, which is not among the sources. The specification
  says of it: block and stride are at least 1, padding is at least 0, and the
  output extent is a "ceil-like" function of input extent, block, stride and
  padding in the style of convolution output sizing. With an unknown extent the
  result is unknown. The theorems about \<open>SimilarityShape\<close> hold for every helper;
  this one serves to run the shape function on concrete shapes.
\<close>

definition GetSimnetsOutputSizeFromDims :: output_size_fn where
  "GetSimnetsOutputSizeFromDims input_size filter_size stride padding ceil_mode =
     (if sint stride < 1 \<or> sint padding < 0 then Inl InvalidArgument
      else
        (case input_size of
           UnknownDim \<Rightarrow> Inr UnknownDim
         | Known n \<Rightarrow>
             (case filter_size of
                UnknownDim \<Rightarrow> Inr UnknownDim
              | Known k \<Rightarrow>
                  (let span = int n + 2 * sint padding - int k in
                   if k < 1 \<or> span < 0 then Inl InvalidArgument
                   else if ceil_mode
                     then Inr (Known (nat ((span + sint stride - 1) div sint stride + 1)))
                     else Inr (Known (nat (span div sint stride + 1)))))))"

subsection \<open>The registered operations\<close>

text \<open>
  Lines 61 to 174: each \<^verbatim>\<open>REGISTER_OP\<close> gives a name, the inputs and outputs, the
  attributes (name, type, default) and the shape function.
\<close>

datatype attr_type =
    TypeOneOf "string list"
  | StringOneOf "string list"
  | ListInt
  | BoolAttr
  | FloatAttr

datatype attr_value =
    StringValue string
  | ListIntValue "int list"
  | BoolValue bool
  | FloatValue real

datatype attr_def = Attr string attr_type "attr_value option"

datatype shape_fn = SimilarityShapeFn | UnchangedShapeFn | SimilarityParametersGradShapeFn

record op_def =
  op_name :: string
  op_inputs :: "(string \<times> string) list"
  op_outputs :: "(string \<times> string) list"
  op_attrs :: "attr_def list"
  op_shape_fn :: shape_fn

definition Similarity :: op_def where
  "Similarity =
     \<lparr>op_name = ''Similarity'',
      op_inputs = [(''input'', ''T''), (''templates'', ''T''), (''weights'', ''T'')],
      op_outputs = [(''output'', ''T'')],
      op_attrs =
        [Attr ''T'' (TypeOneOf [''float32'', ''float64'']) None,
         Attr ''similarity_function'' (StringOneOf [''L1'', ''L2'']) (Some (StringValue ''L2'')),
         Attr ''blocks'' ListInt (Some (ListIntValue [3, 3])),
         Attr ''strides'' ListInt (Some (ListIntValue [2, 2])),
         Attr ''padding'' ListInt (Some (ListIntValue [0, 0])),
         Attr ''normalization_term'' BoolAttr (Some (BoolValue False)),
         Attr ''normalization_term_fudge'' FloatAttr (Some (FloatValue 0.001)),
         Attr ''ignore_nan_input'' BoolAttr (Some (BoolValue False)),
         Attr ''out_of_bounds_value'' FloatAttr (Some (FloatValue 0.0))],
      op_shape_fn = SimilarityShapeFn\<rparr>"

definition SimilarityRef :: op_def where
  "SimilarityRef =
     \<lparr>op_name = ''SimilarityRef'',
      op_inputs = [(''input'', ''T''), (''templates'', ''T''), (''weights'', ''T'')],
      op_outputs = [(''output'', ''T'')],
      op_attrs =
        [Attr ''T'' (TypeOneOf [''float32'', ''float64'']) None,
         Attr ''similarity_function'' (StringOneOf [''L1'', ''L2'']) (Some (StringValue ''L2'')),
         Attr ''blocks'' ListInt (Some (ListIntValue [3, 3])),
         Attr ''strides'' ListInt (Some (ListIntValue [2, 2])),
         Attr ''padding'' ListInt (Some (ListIntValue [0, 0])),
         Attr ''normalization_term'' BoolAttr (Some (BoolValue False)),
         Attr ''normalization_term_fudge'' FloatAttr (Some (FloatValue 0.001)),
         Attr ''ignore_nan_input'' BoolAttr (Some (BoolValue False)),
         Attr ''out_of_bounds_value'' FloatAttr (Some (FloatValue 0.0))],
      op_shape_fn = SimilarityShapeFn\<rparr>"

definition SimilarityInputGrad :: op_def where
  "SimilarityInputGrad =
     \<lparr>op_name = ''SimilarityInputGrad'',
      op_inputs =
        [(''input'', ''T''), (''templates'', ''T''), (''weights'', ''T''), (''input_grad'', ''T'')],
      op_outputs = [(''output'', ''T'')],
      op_attrs =
        [Attr ''T'' (TypeOneOf [''float32'', ''float64'']) None,
         Attr ''similarity_function'' (StringOneOf [''L1'', ''L2'']) (Some (StringValue ''L2'')),
         Attr ''blocks'' ListInt (Some (ListIntValue [3, 3])),
         Attr ''strides'' ListInt (Some (ListIntValue [2, 2])),
         Attr ''padding'' ListInt (Some (ListIntValue [0, 0])),
         Attr ''normalization_term'' BoolAttr (Some (BoolValue False)),
         Attr ''normalization_term_fudge'' FloatAttr (Some (FloatValue 0.001)),
         Attr ''ignore_nan_input'' BoolAttr (Some (BoolValue False)),
         Attr ''out_of_bounds_value'' FloatAttr (Some (FloatValue 0.0))],
      op_shape_fn = UnchangedShapeFn\<rparr>"

definition SimilarityParametersGrad :: op_def where
  "SimilarityParametersGrad =
     \<lparr>op_name = ''SimilarityParametersGrad'',
      op_inputs =
        [(''input'', ''T''), (''templates'', ''T''), (''weights'', ''T''), (''output_grad'', ''T'')],
      op_outputs = [(''templates_grad'', ''T''), (''weights_grad'', ''T'')],
      op_attrs =
        [Attr ''T'' (TypeOneOf [''float32'', ''float64'']) None,
         Attr ''similarity_function'' (StringOneOf [''L1'', ''L2'']) (Some (StringValue ''L2'')),
         Attr ''blocks'' ListInt (Some (ListIntValue [3, 3])),
         Attr ''strides'' ListInt (Some (ListIntValue [2, 2])),
         Attr ''padding'' ListInt (Some (ListIntValue [0, 0])),
         Attr ''normalization_term'' BoolAttr (Some (BoolValue False)),
         Attr ''normalization_term_fudge'' FloatAttr (Some (FloatValue 0.001)),
         Attr ''ignore_nan_input'' BoolAttr (Some (BoolValue False)),
         Attr ''out_of_bounds_value'' FloatAttr (Some (FloatValue 0.0))],
      op_shape_fn = SimilarityParametersGradShapeFn\<rparr>"

text \<open>The framework runs the shape function an operation was registered with.\<close>

fun run_shape_fn :: "output_size_fn \<Rightarrow> shape_fn \<Rightarrow> InferenceContext \<Rightarrow> error + InferenceContext" where
  "run_shape_fn GetOutputSize SimilarityShapeFn c = SimilarityShape GetOutputSize c"
| "run_shape_fn GetOutputSize UnchangedShapeFn c = UnchangedShape c"
| "run_shape_fn GetOutputSize SimilarityParametersGradShapeFn c = SimilarityParametersGradShape c"

definition infer_shape :: "output_size_fn \<Rightarrow> op_def \<Rightarrow> InferenceContext \<Rightarrow> error + InferenceContext" where
  "infer_shape GetOutputSize op c = run_shape_fn GetOutputSize (op_shape_fn op) c"

section \<open>The forward Similarity computation\<close>

text \<open>
  The numeric kernel is not among the sources: \<^verbatim>\<open>similarity_op.cpp\<close> only
  registers the operations. The definitions of this section follow sections 3,
  4.1 and 4.2 of the specification and the \<^verbatim>\<open>Doc\<close> string of the registration.
\<close>

subsection \<open>Values\<close>

text \<open>
  Modelled from the spec: an element of a tensor of type \<^verbatim>\<open>float32\<close> or
  \<^verbatim>\<open>float64\<close>. The arithmetic is idealised: a value is NaN or a finite real
  number, sums and products of finite values are exact, and NaN is absorbing
  ("NaN propagates normally through the sum"). Infinities, rounding and overflow
  are outside this model.
\<close>

datatype fval = NaN | Fin real

fun is_nan :: "fval \<Rightarrow> bool" where
  "is_nan NaN = True"
| "is_nan (Fin x) = False"

instantiation fval :: comm_monoid_add
begin

definition zero_fval :: fval where
  "zero_fval = Fin 0"

fun plus_fval :: "fval \<Rightarrow> fval \<Rightarrow> fval" where
  "plus_fval (Fin a) (Fin b) = Fin (a + b)"
| "plus_fval _ _ = NaN"

instance
proof (standard, goal_cases)
  case (1 x y z)
  show ?case by (cases x; cases y; cases z; simp)
next
  case (2 x y)
  show ?case by (cases x; cases y; simp)
next
  case (3 x)
  show ?case by (cases x; simp add: zero_fval_def)
qed

end

fun fmul :: "fval \<Rightarrow> fval \<Rightarrow> fval" where
  "fmul (Fin a) (Fin b) = Fin (a * b)"
| "fmul _ _ = NaN"

subsection \<open>Data model\<close>

text \<open>
  Modelled from the spec: the similarity mode selects the distance of two
  elements, L1 as \<open>- |a - b|\<close> and L2 as \<open>- (a - b)\<^sup>2\<close> (section 3).
\<close>

datatype similarity_function = L1 | L2

fun phi :: "similarity_function \<Rightarrow> fval \<Rightarrow> fval \<Rightarrow> fval" where
  "phi L1 (Fin a) (Fin b) = Fin (- \<bar>a - b\<bar>)"
| "phi L2 (Fin a) (Fin b) = Fin (- ((a - b) ^ 2))"
| "phi _ _ _ = NaN"

text \<open>
  Modelled from the spec: geometry, normalization flags and a dense tensor with
  axes (N, C, H, W) (section 3). The layout in memory is abstracted to the
  function from an index to the element.
\<close>

record geometry =
  block_h :: nat
  block_w :: nat
  stride_h :: nat
  stride_w :: nat
  pad_h :: nat
  pad_w :: nat

record flags =
  normalization_term :: bool
  normalization_term_fudge :: real
  ignore_nan_input :: bool
  out_of_bounds_value :: fval

record tensor4 =
  extent_n :: nat
  extent_c :: nat
  extent_h :: nat
  extent_w :: nat
  element :: "nat \<Rightarrow> nat \<Rightarrow> nat \<Rightarrow> nat \<Rightarrow> fval"

subsection \<open>Patch extractor\<close>

text \<open>
  Modelled from the spec: section 4.1, the map from an output cell \<open>(i, j)\<close> and
  an offset \<open>(di, dj)\<close> to \<open>(input_row, input_col, in_bounds)\<close>, with
  \<open>input_row = stride_h * i + di - pad_h\<close>, \<open>input_col = stride_w * j + dj - pad_w\<close>
  and \<open>in_bounds = 0 \<le> input_row < in_h \<and> 0 \<le> input_col < in_w\<close>.
\<close>

definition patch_map :: "geometry \<Rightarrow> tensor4 \<Rightarrow> nat \<Rightarrow> nat \<Rightarrow> nat \<Rightarrow> nat \<Rightarrow> int \<times> int \<times> bool" where
  "patch_map g inp i j di dj =
     (let input_row = int (stride_h g) * int i + int di - int (pad_h g);
          input_col = int (stride_w g) * int j + int dj - int (pad_w g);
          in_bounds = (0 \<le> input_row \<and> input_row < int (extent_h inp) \<and>
                       0 \<le> input_col \<and> input_col < int (extent_w inp))
      in (input_row, input_col, in_bounds))"

text \<open>
  Modelled from the spec: the value read for a position is the input element when
  the position is in bounds and \<^verbatim>\<open>out_of_bounds_value\<close> otherwise (section 4.1).
\<close>

definition patch_value ::
  "flags \<Rightarrow> geometry \<Rightarrow> tensor4 \<Rightarrow> nat \<Rightarrow> nat \<Rightarrow> nat \<Rightarrow> nat \<Rightarrow> nat \<Rightarrow> nat \<Rightarrow> fval" where
  "patch_value f g inp b dc i j di dj =
     (case patch_map g inp i j di dj of
        (input_row, input_col, in_bounds) \<Rightarrow>
          if in_bounds then element inp b dc (nat input_row) (nat input_col)
          else out_of_bounds_value f)"

subsection \<open>Forward similarity\<close>

text \<open>
  Modelled from the spec: steps 1 and 2 of section 4.2 for one element of the
  block. The state of the loop is the running sum and the count \<open>K\<close>. An element
  whose patch value is NaN is skipped under \<^verbatim>\<open>ignore_nan_input\<close> and the count is
  decremented; otherwise the distance of patch and template, multiplied by the
  weight, is added to the running sum.
\<close>

definition accumulate ::
  "flags \<Rightarrow> similarity_function \<Rightarrow> fval \<Rightarrow> fval \<Rightarrow> fval \<Rightarrow> fval \<times> int \<Rightarrow> fval \<times> int" where
  "accumulate f mode patch template weight acc =
     (case acc of
        (running_sum, K) \<Rightarrow>
          if ignore_nan_input f \<and> is_nan patch then (running_sum, K - 1)
          else (running_sum + fmul (phi mode patch template) weight, K))"

text \<open>
  Modelled from the spec: section 4.2 for the output element \<open>(b, c, i, j)\<close>. The
  three loops run over \<open>dc\<close> in \<open>[0, Cin)\<close>, \<open>di\<close> in \<open>[0, Bh)\<close> and \<open>dj\<close> in
  \<open>[0, Bw)\<close>; the count starts at the full block size. Step 3 adds
  \<open>-0.5 * K * log(2*pi)\<close> when \<^verbatim>\<open>normalization_term\<close> is set; step 4 returns the sum.
\<close>

definition forward_element ::
  "flags \<Rightarrow> similarity_function \<Rightarrow> geometry \<Rightarrow> tensor4 \<Rightarrow> tensor4 \<Rightarrow> tensor4 \<Rightarrow>
     nat \<Rightarrow> nat \<Rightarrow> nat \<Rightarrow> nat \<Rightarrow> fval" where
  "forward_element f mode g inp templates weights b c i j =
     (case
        fold (\<lambda>dc.
          fold (\<lambda>di.
            fold (\<lambda>dj.
              accumulate f mode (patch_value f g inp b dc i j di dj)
                (element templates c dc di dj) (element weights c dc di dj))
              [0..<block_w g])
            [0..<block_h g])
          [0..<extent_c inp]
          (Fin 0, int (extent_c inp * block_h g * block_w g))
      of (running_sum, K) \<Rightarrow>
        if normalization_term f then running_sum + Fin (- 0.5 * real_of_int K * ln (2 * pi))
        else running_sum)"

text \<open>
  Modelled from the spec: the active element count \<open>K\<close> of a window in the words
  of section 4.2, the number of elements of the block that are not excluded, that
  is all of them, or under \<^verbatim>\<open>ignore_nan_input\<close> those whose patch value is not
  NaN. The kernel above counts down instead; the two are shown to agree.
\<close>

definition active_count :: "flags \<Rightarrow> geometry \<Rightarrow> tensor4 \<Rightarrow> nat \<Rightarrow> nat \<Rightarrow> nat \<Rightarrow> nat" where
  "active_count f g inp b i j =
     (\<Sum>dc<extent_c inp. \<Sum>di<block_h g. \<Sum>dj<block_w g.
        if ignore_nan_input f \<and> is_nan (patch_value f g inp b dc i j di dj) then 0 else 1)"

text \<open>What one element adds to the running sum and takes from the count.\<close>

definition term_of :: "flags \<Rightarrow> similarity_function \<Rightarrow> fval \<Rightarrow> fval \<Rightarrow> fval \<Rightarrow> fval" where
  "term_of f mode patch template weight =
     (if ignore_nan_input f \<and> is_nan patch then 0 else fmul (phi mode patch template) weight)"

definition drop_of :: "flags \<Rightarrow> fval \<Rightarrow> int" where
  "drop_of f patch = (if ignore_nan_input f \<and> is_nan patch then 1 else 0)"

section \<open>Conditions of the shape check and concrete inputs\<close>

text \<open>A shape passes \<^verbatim>\<open>WithRank\<close> when its rank is unknown or the one asked for.\<close>

definition has_rank :: "shape \<Rightarrow> nat \<Rightarrow> bool" where
  "has_rank s r = (case s of UnknownRank \<Rightarrow> True | Shape ds \<Rightarrow> length ds = r)"

text \<open>Two dimensions merge when one of them is unknown or they are equal.\<close>

definition mergeable :: "dimension \<Rightarrow> dimension \<Rightarrow> bool" where
  "mergeable d0 d1 = (d0 = UnknownDim \<or> d1 = UnknownDim \<or> d0 = d1)"

text \<open>
  The conditions under which the checks of lines 11 to 40 fail: the rank of the
  input or of the templates, the number of strides, the in-channel dimensions.
\<close>

definition shape_check_fails :: "InferenceContext \<Rightarrow> bool" where
  "shape_check_fails c =
     (\<not> has_rank (inputs c ! 0) 4 \<or> \<not> has_rank (inputs c ! 1) 4 \<or>
      length (attr_strides (attrs c)) \<noteq> 2 \<or>
      \<not> mergeable (Dim (inputs c ! 0) 1) (Dim (inputs c ! 1) 1))"

text \<open>
  The outcome of lines 42 to 52 when both padding values can be read: the two
  output-size computations, then the output shape.
\<close>

definition output_size_result :: "output_size_fn \<Rightarrow> InferenceContext \<Rightarrow> error + InferenceContext" where
  "output_size_result GetOutputSize c =
     TF_RETURN_IF_ERROR
       (GetOutputSize (Dim (inputs c ! 0) 2) (Dim (inputs c ! 1) 2)
          (attr_strides (attrs c) ! 0) (attr_padding (attrs c) ! 0) True) (\<lambda>output_rows.
     TF_RETURN_IF_ERROR
       (GetOutputSize (Dim (inputs c ! 0) 3) (Dim (inputs c ! 1) 3)
          (attr_strides (attrs c) ! 1) (attr_padding (attrs c) ! 1) True) (\<lambda>output_cols.
     Inr (set_output c 0
       (Shape [Dim (inputs c ! 0) 0, Dim (inputs c ! 1) 0, output_rows, output_cols]))))"

text \<open>
  A node of \<^verbatim>\<open>Similarity\<close>: a batch of 2 images with 3 channels of 8 by 8, and 5
  templates of 5 by 5, with \<^verbatim>\<open>blocks = [3,3]\<close>, \<^verbatim>\<open>strides = [1,1]\<close> and
  \<^verbatim>\<open>padding = [0,0]\<close>.
\<close>

definition example_context :: InferenceContext where
  "example_context =
     \<lparr>inputs = [Shape [Known 2, Known 3, Known 8, Known 8],
                Shape [Known 5, Known 3, Known 5, Known 5],
                Shape [Known 5, Known 3, Known 5, Known 5]],
      outputs = Map.empty,
      attrs = \<lparr>attr_blocks = [3, 3], attr_strides = [1, 1], attr_padding = [0, 0]\<rparr>\<rparr>"

text \<open>A node of a gradient operation: the same, with the gradient as fourth input.\<close>

definition example_grad_context :: InferenceContext where
  "example_grad_context =
     \<lparr>inputs = [Shape [Known 2, Known 3, Known 8, Known 8],
                Shape [Known 5, Known 3, Known 5, Known 5],
                Shape [Known 5, Known 3, Known 5, Known 5],
                Shape [Known 2, Known 5, Known 4, Known 4]],
      outputs = Map.empty,
      attrs = \<lparr>attr_blocks = [3, 3], attr_strides = [1, 1], attr_padding = [0, 0]\<rparr>\<rparr>"

text \<open>
  The scenario of section 8 of the specification: an input of shape [1,1,4,4],
  templates and weights of shape [1,1,3,3], blocks 3 by 3, strides 1, no padding,
  and the default flags of the registration.
\<close>

definition default_flags :: flags where
  "default_flags =
     \<lparr>normalization_term = False, normalization_term_fudge = 0.001,
      ignore_nan_input = False, out_of_bounds_value = Fin 0\<rparr>"

definition constant_tensor :: "nat \<Rightarrow> nat \<Rightarrow> nat \<Rightarrow> nat \<Rightarrow> fval \<Rightarrow> tensor4" where
  "constant_tensor n c h w v =
     \<lparr>extent_n = n, extent_c = c, extent_h = h, extent_w = w, element = (\<lambda>_ _ _ _. v)\<rparr>"

definition geometry_3x3 :: geometry where
  "geometry_3x3 = \<lparr>block_h = 3, block_w = 3, stride_h = 1, stride_w = 1, pad_h = 0, pad_w = 0\<rparr>"

text \<open>An input of ones with a NaN at row 0, column 0.\<close>

definition nan_corner_tensor :: tensor4 where
  "nan_corner_tensor =
     \<lparr>extent_n = 1, extent_c = 1, extent_h = 4, extent_w = 4,
      element = (\<lambda>b c h w. if h = 0 \<and> w = 0 then NaN else Fin 1)\<rparr>"

section \<open>Properties of the shape functions\<close>

subsection \<open>Auxiliary facts\<close>

lemma TF_RETURN_IF_ERROR_simps [simp]:
  "TF_RETURN_IF_ERROR (Inl e) rest = Inl e"
  "TF_RETURN_IF_ERROR (Inr x) rest = rest x"
  by (simp_all add: TF_RETURN_IF_ERROR_def)

lemma WithRank_cases:
  "WithRank s r =
     (if has_rank s r
      then Inr (case s of UnknownRank \<Rightarrow> Shape (replicate r UnknownDim) | Shape ds \<Rightarrow> Shape ds)
      else Inl InvalidArgument)"
  by (simp add: WithRank_def has_rank_def split: shape.splits)

lemma Merge_cases:
  "Merge d0 d1 =
     (if mergeable d0 d1
      then Inr (if d1 = UnknownDim then d0 else if d0 = UnknownDim then d1 else d0)
      else Inl InvalidArgument)"
  by (auto simp add: Merge_def mergeable_def split: dimension.splits)

lemma input_in_range: "Suc k \<le> length (inputs c) \<Longrightarrow> input c k = Inr (inputs c ! k)"
  unfolding input_def by (simp only: Suc_le_eq if_True)

lemma vector_at_in_range: "Suc k \<le> length v \<Longrightarrow> vector_at v k = Inr (v ! k)"
  unfolding vector_at_def by (simp only: Suc_le_eq if_True)

text \<open>After \<^verbatim>\<open>WithRank\<close> the four dimensions are those of the shape given.\<close>

lemma Dim_WithRank_shape:
  "has_rank s 4 \<Longrightarrow> k < 4 \<Longrightarrow>
   Dim (case s of UnknownRank \<Rightarrow> Shape (replicate 4 UnknownDim) | Shape ds \<Rightarrow> Shape ds) k = Dim s k"
  by (auto simp add: Dim_def has_rank_def split: shape.splits)

lemma SimilarityShape_checks_pass:
  assumes "2 \<le> length (inputs c)" and "\<not> shape_check_fails c"
  shows "SimilarityShape h c =
     TF_RETURN_IF_ERROR (vector_at (attr_padding (attrs c)) 0) (\<lambda>padding0.
     TF_RETURN_IF_ERROR
       (h (Dim (inputs c ! 0) 2) (Dim (inputs c ! 1) 2) (attr_strides (attrs c) ! 0) padding0 True)
       (\<lambda>output_rows.
     TF_RETURN_IF_ERROR (vector_at (attr_padding (attrs c)) 1) (\<lambda>padding1.
     TF_RETURN_IF_ERROR
       (h (Dim (inputs c ! 0) 3) (Dim (inputs c ! 1) 3) (attr_strides (attrs c) ! 1) padding1 True)
       (\<lambda>output_cols.
     Inr (set_output c 0
       (Shape [Dim (inputs c ! 0) 0, Dim (inputs c ! 1) 0, output_rows, output_cols]))))))"
proof -
  have in0: "input c 0 = Inr (inputs c ! 0)" and in1: "input c (Suc 0) = Inr (inputs c ! Suc 0)"
    using assms(1) by (simp_all add: input_in_range)
  show ?thesis
    using assms(2)
    by (simp add: SimilarityShape_def shape_check_fails_def in0 in1 WithRank_cases Merge_cases
        Dim_WithRank_shape MakeShape_def Let_def)
qed

lemma SimilarityShape_checks_fail:
  assumes "2 \<le> length (inputs c)" and "shape_check_fails c"
  shows "SimilarityShape h c = Inl InvalidArgument"
proof -
  have in0: "input c 0 = Inr (inputs c ! 0)" and in1: "input c (Suc 0) = Inr (inputs c ! Suc 0)"
    using assms(1) by (simp_all add: input_in_range)
  show ?thesis
    using assms(2)
    by (auto simp add: SimilarityShape_def shape_check_fails_def in0 in1 WithRank_cases Merge_cases
        Dim_WithRank_shape Let_def)
qed

lemma SimilarityShape_success:
  assumes "SimilarityShape h c = Inr c'"
  shows "2 \<le> length (inputs c) \<and> \<not> shape_check_fails c \<and> 2 \<le> length (attr_padding (attrs c))
     \<and> SimilarityShape h c = output_size_result h c"
proof -
  have len: "2 \<le> length (inputs c)"
  proof (rule ccontr)
    assume "\<not> 2 \<le> length (inputs c)"
    then have "input c 0 = Inl OutOfRangeAccess \<or> input c 1 = Inl OutOfRangeAccess"
      by (auto simp add: input_def)
    then have "\<exists>e. SimilarityShape h c = Inl e"
      by (auto simp add: SimilarityShape_def TF_RETURN_IF_ERROR_def split: sum.splits)
    with assms show False by simp
  qed
  have ok: "\<not> shape_check_fails c"
    using assms len SimilarityShape_checks_fail [of c h] by auto
  have pad: "2 \<le> length (attr_padding (attrs c))"
    using assms SimilarityShape_checks_pass [OF len ok, of h]
    by (auto simp add: vector_at_def TF_RETURN_IF_ERROR_def split: if_splits sum.splits)
  show ?thesis
    using len ok pad SimilarityShape_checks_pass [OF len ok, of h]
    by (simp add: output_size_result_def vector_at_in_range)
qed

lemma blocks_unused:
  "map_sum id outputs (SimilarityShape h (c\<lparr>attrs := (attrs c)\<lparr>attr_blocks := b\<rparr>\<rparr>)) =
   map_sum id outputs (SimilarityShape h c)"
  by (simp add: SimilarityShape_def input_def Let_def TF_RETURN_IF_ERROR_def set_output_def
      split: sum.splits)

text \<open>The shape function on the example node, with the helper of the specification.\<close>

lemma SimilarityShape_example:
  "SimilarityShape GetSimnetsOutputSizeFromDims example_context =
     Inr (set_output example_context 0 (Shape [Known 2, Known 5, Known 4, Known 4]))"
  by (simp add: SimilarityShape_def example_context_def input_def WithRank_def Dim_def Merge_def
      vector_at_def GetSimnetsOutputSizeFromDims_def MakeShape_def)

lemma example_context_checks:
  "2 \<le> length (inputs (example_context\<lparr>attrs := a\<rparr>))"
  "shape_check_fails (example_context\<lparr>attrs := a\<rparr>) \<longleftrightarrow> length (attr_strides a) \<noteq> 2"
  by (simp_all add: example_context_def shape_check_fails_def has_rank_def mergeable_def Dim_def)

subsection \<open>Failure of the shape check\<close>

text \<open>
  Claim C2, as the code has it. Given the shapes of input and templates, the shape
  check fails with \<open>InvalidArgument\<close> whenever the strides attribute does not hold
  exactly 2 values, or the input or the templates have a known rank other than 4,
  or the in-channel dimensions (dimension 1) of input and templates are both known
  and differ. The batch dimension of the input is compared with nothing. When none
  of these holds and the padding attribute holds at least 2 values, the outcome is
  that of the two output-size computations: the output shape when both succeed,
  the first error otherwise. A failure is a bare error and carries no output shape.
\<close>

theorem SimilarityShape_failure_conditions:
  assumes "2 \<le> length (inputs c)"
  shows "(shape_check_fails c \<longrightarrow> SimilarityShape h c = Inl InvalidArgument) \<and>
         (\<not> shape_check_fails c \<and> 2 \<le> length (attr_padding (attrs c)) \<longrightarrow>
            SimilarityShape h c = output_size_result h c)"
  using assms
  by (simp add: SimilarityShape_checks_fail SimilarityShape_checks_pass output_size_result_def
      vector_at_in_range)

text \<open>
  On the example node the check passes, and it fails once the strides attribute
  has a single value.
\<close>

theorem SimilarityShape_failure_conditions_witness:
  "shape_check_fails (example_context\<lparr>attrs := (attrs example_context)\<lparr>attr_strides := [1]\<rparr>\<rparr>) \<and>
   SimilarityShape GetSimnetsOutputSizeFromDims
     (example_context\<lparr>attrs := (attrs example_context)\<lparr>attr_strides := [1]\<rparr>\<rparr>) = Inl InvalidArgument \<and>
   \<not> shape_check_fails example_context \<and>
   SimilarityShape GetSimnetsOutputSizeFromDims example_context =
     Inr (set_output example_context 0 (Shape [Known 2, Known 5, Known 4, Known 4]))"
proof -
  have len1: "2 \<le> length (inputs (example_context\<lparr>attrs := (attrs example_context)\<lparr>attr_strides := [1]\<rparr>\<rparr>))"
    by (rule example_context_checks)
  have len2: "2 \<le> length (inputs example_context)"
    by (simp add: example_context_def)
  have fails: "shape_check_fails (example_context\<lparr>attrs := (attrs example_context)\<lparr>attr_strides := [1]\<rparr>\<rparr>)"
    by (simp add: example_context_checks)
  have passes: "\<not> shape_check_fails example_context"
    by (simp add: example_context_def shape_check_fails_def has_rank_def mergeable_def Dim_def)
  have pad: "2 \<le> length (attr_padding (attrs example_context))"
    by (simp add: example_context_def)
  have eval: "output_size_result GetSimnetsOutputSizeFromDims example_context =
      Inr (set_output example_context 0 (Shape [Known 2, Known 5, Known 4, Known 4]))"
    by (simp add: output_size_result_def example_context_def Dim_def
        GetSimnetsOutputSizeFromDims_def)
  show ?thesis
    using SimilarityShape_failure_conditions [OF len1, of GetSimnetsOutputSizeFromDims]
      SimilarityShape_failure_conditions [OF len2, of GetSimnetsOutputSizeFromDims]
      fails passes pad eval
    by simp
qed

text \<open>
  The batch dimensions of input (2) and templates (5) of the example node do not
  merge, and the shape check succeeds.
\<close>

theorem SimilarityShape_batch_counterexample:
  "Merge (Dim (inputs example_context ! 0) 0) (Dim (inputs example_context ! 1) 0)
     = Inl InvalidArgument \<and>
   SimilarityShape GetSimnetsOutputSizeFromDims example_context =
     Inr (set_output example_context 0 (Shape [Known 2, Known 5, Known 4, Known 4]))"
  by (simp add: SimilarityShape_example) (simp add: example_context_def Dim_def Merge_def)

subsection \<open>The inferred output shape\<close>

text \<open>
  Claim C3. When the shape inference of Similarity succeeds, the inferred output
  shape is exactly [batch, out_channels, output_h, output_w], where batch is
  dimension 0 of the input and out_channels is dimension 0 of the templates;
  output_h and output_w are the results of the output-size helper for the rows
  and for the columns, in this order, and nothing else of the node changes.
\<close>

theorem SimilarityShape_output_shape:
  assumes "SimilarityShape h c = Inr c'"
  shows "\<exists>output_h output_w.
           h (Dim (inputs c ! 0) 2) (Dim (inputs c ! 1) 2)
             (attr_strides (attrs c) ! 0) (attr_padding (attrs c) ! 0) True = Inr output_h \<and>
           h (Dim (inputs c ! 0) 3) (Dim (inputs c ! 1) 3)
             (attr_strides (attrs c) ! 1) (attr_padding (attrs c) ! 1) True = Inr output_w \<and>
           c' = set_output c 0
                  (Shape [Dim (inputs c ! 0) 0, Dim (inputs c ! 1) 0, output_h, output_w]) \<and>
           outputs c' 0 =
             Some (Shape [Dim (inputs c ! 0) 0, Dim (inputs c ! 1) 0, output_h, output_w])"
  using assms SimilarityShape_success [OF assms]
  by (auto simp add: output_size_result_def TF_RETURN_IF_ERROR_def set_output_def split: sum.splits)

text \<open>On the example node the helper gives 4 for rows and for columns.\<close>

theorem SimilarityShape_output_shape_witness:
  "SimilarityShape GetSimnetsOutputSizeFromDims example_context =
     Inr (set_output example_context 0 (Shape [Known 2, Known 5, Known 4, Known 4])) \<and>
   GetSimnetsOutputSizeFromDims (Known 8) (Known 5) 1 0 True = Inr (Known 4) \<and>
   outputs (set_output example_context 0 (Shape [Known 2, Known 5, Known 4, Known 4])) 0 =
     Some (Shape [Known 2, Known 5, Known 4, Known 4])"
  using SimilarityShape_output_shape [OF SimilarityShape_example] SimilarityShape_example
  by (simp add: example_context_def Dim_def GetSimnetsOutputSizeFromDims_def set_output_def)

text \<open>
  Where the height and width of the templates are those of the \<^verbatim>\<open>blocks\<close>
  attribute, the inferred output height and width are the results of the
  output-size helper on input extent, block size, stride and padding.
\<close>

lemma SimilarityShape_spatial_when_blocks_match:
  assumes "SimilarityShape h c = Inr c'"
    and "Dim (inputs c ! 1) 2 = Known bh"
    and "Dim (inputs c ! 1) 3 = Known bw"
    and "map sint (attr_blocks (attrs c)) = [int bh, int bw]"
  shows "\<exists>s. outputs c' 0 = Some s \<and>
        h (Dim (inputs c ! 0) 2) (Known bh)
          (attr_strides (attrs c) ! 0) (attr_padding (attrs c) ! 0) True = Inr (Dim s 2) \<and>
        h (Dim (inputs c ! 0) 3) (Known bw)
          (attr_strides (attrs c) ! 1) (attr_padding (attrs c) ! 1) True = Inr (Dim s 3)"
  using assms(1,2,3) SimilarityShape_success [OF assms(1)]
  by (auto simp add: output_size_result_def TF_RETURN_IF_ERROR_def set_output_def Dim_def
      split: sum.splits)

text \<open>
  Claim C4. For every valid geometry the output spatial dimensions are derived
  from the block size: output_h = f(in_h, block_h, stride_h, pad_h) and output_w
  likewise. The shape function reads \<^verbatim>\<open>blocks\<close> (lines 17 and 18) and then
  neither uses it nor compares it with the templates: on the example node, with
  blocks of 3 by 3 and templates of 5 by 5, it succeeds with an output of 4 by 4,
  where the block size gives 6 by 6.
\<close>

theorem SimilarityShape_blocks_dropped:
  "map sint (attr_blocks (attrs example_context)) = [3, 3] \<and>
   inputs example_context ! 1 = Shape [Known 5, Known 3, Known 5, Known 5] \<and>
   SimilarityShape GetSimnetsOutputSizeFromDims example_context =
     Inr (set_output example_context 0 (Shape [Known 2, Known 5, Known 4, Known 4])) \<and>
   GetSimnetsOutputSizeFromDims (Known 8) (Known 3) 1 0 True = Inr (Known 6)"
  by (simp add: SimilarityShape_example)
     (simp add: example_context_def GetSimnetsOutputSizeFromDims_def)

subsection \<open>The gradient operations\<close>

text \<open>
  Claim C5. For every invocation of SimilarityParametersGrad, the shape of
  templates_grad is the shape of the templates input and the shape of weights_grad
  is the shape of the weights input, whatever the other shapes are.
\<close>

theorem SimilarityParametersGrad_shapes:
  assumes "length (inputs c) = length (op_inputs SimilarityParametersGrad)"
  shows "\<exists>c'. infer_shape GetOutputSize SimilarityParametersGrad c = Inr c' \<and>
           outputs c' 0 = Some (inputs c ! 1) \<and> outputs c' 1 = Some (inputs c ! 2)"
  using assms
  by (simp add: infer_shape_def SimilarityParametersGrad_def SimilarityParametersGradShape_def
      input_def set_output_def)

theorem SimilarityParametersGrad_shapes_witness:
  "length (inputs example_grad_context) = length (op_inputs SimilarityParametersGrad) \<and>
   (\<exists>c'. infer_shape GetSimnetsOutputSizeFromDims SimilarityParametersGrad example_grad_context
            = Inr c' \<and>
      outputs c' 0 = Some (Shape [Known 5, Known 3, Known 5, Known 5]) \<and>
      outputs c' 1 = Some (Shape [Known 5, Known 3, Known 5, Known 5]))"
proof -
  have len: "length (inputs example_grad_context) = length (op_inputs SimilarityParametersGrad)"
    by (simp add: example_grad_context_def SimilarityParametersGrad_def)
  show ?thesis
    using len SimilarityParametersGrad_shapes [OF len, of GetSimnetsOutputSizeFromDims]
    by (simp add: example_grad_context_def)
qed

text \<open>
  Claim C6. For every invocation of SimilarityInputGrad, the shape of the output
  is the shape of the first input, the input tensor.
\<close>

theorem SimilarityInputGrad_shape:
  assumes "length (inputs c) = length (op_inputs SimilarityInputGrad)"
  shows "\<exists>c'. infer_shape GetOutputSize SimilarityInputGrad c = Inr c' \<and>
           outputs c' 0 = Some (inputs c ! 0)"
  using assms
  by (simp add: infer_shape_def SimilarityInputGrad_def UnchangedShape_def input_def set_output_def)

theorem SimilarityInputGrad_shape_witness:
  "length (inputs example_grad_context) = length (op_inputs SimilarityInputGrad) \<and>
   (\<exists>c'. infer_shape GetSimnetsOutputSizeFromDims SimilarityInputGrad example_grad_context
            = Inr c' \<and>
      outputs c' 0 = Some (Shape [Known 2, Known 3, Known 8, Known 8]))"
proof -
  have len: "length (inputs example_grad_context) = length (op_inputs SimilarityInputGrad)"
    by (simp add: example_grad_context_def SimilarityInputGrad_def)
  show ?thesis
    using len SimilarityInputGrad_shape [OF len, of GetSimnetsOutputSizeFromDims]
    by (simp add: example_grad_context_def)
qed

subsection \<open>The reference variant\<close>

text \<open>
  Claim C7. SimilarityRef has the contract of Similarity: the same inputs, the
  same output, the same attributes with their types and defaults, and the same
  shape function, so that the shape inference of both gives the same result on
  every node.
\<close>

theorem SimilarityRef_same_contract:
  "op_inputs SimilarityRef = op_inputs Similarity \<and>
   op_outputs SimilarityRef = op_outputs Similarity \<and>
   op_attrs SimilarityRef = op_attrs Similarity \<and>
   op_shape_fn SimilarityRef = op_shape_fn Similarity \<and>
   infer_shape GetOutputSize SimilarityRef c = infer_shape GetOutputSize Similarity c"
  by (simp add: SimilarityRef_def Similarity_def infer_shape_def)

theorem SimilarityRef_same_contract_witness:
  "infer_shape GetSimnetsOutputSizeFromDims SimilarityRef example_context =
     Inr (set_output example_context 0 (Shape [Known 2, Known 5, Known 4, Known 4])) \<and>
   infer_shape GetSimnetsOutputSizeFromDims Similarity example_context =
     Inr (set_output example_context 0 (Shape [Known 2, Known 5, Known 4, Known 4]))"
  using SimilarityRef_same_contract [of GetSimnetsOutputSizeFromDims example_context]
    SimilarityShape_example
  by (simp add: infer_shape_def Similarity_def)

subsection \<open>The unchecked padding attribute\<close>

text \<open>
  Claim C10, as the code has it. The shape function reads \<^verbatim>\<open>padding[0]\<close> and
  \<^verbatim>\<open>padding[1]\<close> without a check of the length, unlike the strides. The reads
  come after the checks of rank, strides and in-channel dimensions. When those
  checks pass: an empty padding list is read out of range; a padding list of one
  value is read out of range once the output-size computation for the rows has
  succeeded; with two or more values both reads are in range and the outcome is
  that of the two output-size computations.
\<close>

theorem SimilarityShape_padding_access:
  assumes "2 \<le> length (inputs c)" and "\<not> shape_check_fails c"
  shows "SimilarityShape h c =
     (if attr_padding (attrs c) = [] then Inl OutOfRangeAccess
      else
        TF_RETURN_IF_ERROR
          (h (Dim (inputs c ! 0) 2) (Dim (inputs c ! 1) 2)
             (attr_strides (attrs c) ! 0) (attr_padding (attrs c) ! 0) True) (\<lambda>output_rows.
        if length (attr_padding (attrs c)) < 2 then Inl OutOfRangeAccess
        else
          TF_RETURN_IF_ERROR
            (h (Dim (inputs c ! 0) 3) (Dim (inputs c ! 1) 3)
               (attr_strides (attrs c) ! 1) (attr_padding (attrs c) ! 1) True) (\<lambda>output_cols.
          Inr (set_output c 0
            (Shape [Dim (inputs c ! 0) 0, Dim (inputs c ! 1) 0, output_rows, output_cols])))))"
  using assms
  by (simp add: SimilarityShape_checks_pass vector_at_def)

text \<open>The example node with an empty padding list, and with a single padding value.\<close>

theorem SimilarityShape_padding_access_witness:
  "\<not> shape_check_fails (example_context\<lparr>attrs := (attrs example_context)\<lparr>attr_padding := []\<rparr>\<rparr>) \<and>
   SimilarityShape GetSimnetsOutputSizeFromDims
     (example_context\<lparr>attrs := (attrs example_context)\<lparr>attr_padding := []\<rparr>\<rparr>)
     = Inl OutOfRangeAccess \<and>
   \<not> shape_check_fails (example_context\<lparr>attrs := (attrs example_context)\<lparr>attr_padding := [0]\<rparr>\<rparr>) \<and>
   SimilarityShape GetSimnetsOutputSizeFromDims
     (example_context\<lparr>attrs := (attrs example_context)\<lparr>attr_padding := [0]\<rparr>\<rparr>)
     = Inl OutOfRangeAccess"
proof -
  have strides: "attr_strides (attrs example_context) = [1, 1]"
    by (simp add: example_context_def)
  have ok0: "\<not> shape_check_fails (example_context\<lparr>attrs := (attrs example_context)\<lparr>attr_padding := []\<rparr>\<rparr>)"
    by (simp add: example_context_checks strides)
  have ok1: "\<not> shape_check_fails (example_context\<lparr>attrs := (attrs example_context)\<lparr>attr_padding := [0]\<rparr>\<rparr>)"
    by (simp add: example_context_checks strides)
  have rows: "GetSimnetsOutputSizeFromDims (Known 8) (Known 5) 1 0 True = Inr (Known 4)"
    by (simp add: GetSimnetsOutputSizeFromDims_def)
  show ?thesis
    using ok0 ok1
      SimilarityShape_padding_access [OF example_context_checks(1) ok0, of GetSimnetsOutputSizeFromDims]
      SimilarityShape_padding_access [OF example_context_checks(1) ok1, of GetSimnetsOutputSizeFromDims]
    by (simp add: strides) (simp add: example_context_def Dim_def rows)
qed

text \<open>
  With an empty strides list and an empty padding list the shape function returns
  \<open>InvalidArgument\<close> at the check of the strides; the padding is not read.
\<close>

theorem SimilarityShape_padding_counterexample:
  "length (attr_padding \<lparr>attr_blocks = [3, 3], attr_strides = [], attr_padding = []\<rparr>) < 2 \<and>
   SimilarityShape GetSimnetsOutputSizeFromDims
     (example_context\<lparr>attrs := \<lparr>attr_blocks = [3, 3], attr_strides = [], attr_padding = []\<rparr>\<rparr>)
     = Inl InvalidArgument"
  by (simp add: SimilarityShape_def example_context_def input_def WithRank_def)

section \<open>Properties of the forward computation\<close>

subsection \<open>The loops in closed form\<close>

text \<open>
  A loop over \<open>[0, n)\<close> whose body adds to the running sum and subtracts from the
  count computes the two sums over \<open>{..<n}\<close>.
\<close>

lemma fold_upt_pair:
  fixes a :: "nat \<Rightarrow> fval" and d :: "nat \<Rightarrow> int"
  assumes "\<And>k s K. step k (s, K) = (s + a k, K - d k)"
  shows "fold step [0..<n] (s, K) = (s + sum a {..<n}, K - sum d {..<n})"
  by (induction n) (simp_all add: assms add.assoc)

lemma accumulate_pair:
  "accumulate f mode patch template weight (s, K) =
     (s + term_of f mode patch template weight, K - drop_of f patch)"
  by (simp add: accumulate_def term_of_def drop_of_def)

lemma forward_loops:
  "fold (\<lambda>dc.
          fold (\<lambda>di.
            fold (\<lambda>dj. accumulate f mode (x dc di dj) (t dc di dj) (w dc di dj)) [0..<bw])
            [0..<bh])
          [0..<cin] (s, K) =
   (s + (\<Sum>dc<cin. \<Sum>di<bh. \<Sum>dj<bw. term_of f mode (x dc di dj) (t dc di dj) (w dc di dj)),
    K - (\<Sum>dc<cin. \<Sum>di<bh. \<Sum>dj<bw. drop_of f (x dc di dj)))"
proof -
  have inner: "\<And>dc di s K.
      fold (\<lambda>dj. accumulate f mode (x dc di dj) (t dc di dj) (w dc di dj)) [0..<bw] (s, K) =
      (s + (\<Sum>dj<bw. term_of f mode (x dc di dj) (t dc di dj) (w dc di dj)),
       K - (\<Sum>dj<bw. drop_of f (x dc di dj)))"
    by (rule fold_upt_pair) (rule accumulate_pair)
  have middle: "\<And>dc s K.
      fold (\<lambda>di. fold (\<lambda>dj. accumulate f mode (x dc di dj) (t dc di dj) (w dc di dj)) [0..<bw])
        [0..<bh] (s, K) =
      (s + (\<Sum>di<bh. \<Sum>dj<bw. term_of f mode (x dc di dj) (t dc di dj) (w dc di dj)),
       K - (\<Sum>di<bh. \<Sum>dj<bw. drop_of f (x dc di dj)))"
    by (rule fold_upt_pair) (rule inner)
  show ?thesis
    by (rule fold_upt_pair) (rule middle)
qed

lemma forward_element_closed:
  "forward_element f mode g inp templates weights b c i j =
     (\<Sum>dc<extent_c inp. \<Sum>di<block_h g. \<Sum>dj<block_w g.
        term_of f mode (patch_value f g inp b dc i j di dj)
          (element templates c dc di dj) (element weights c dc di dj))
     + (if normalization_term f
        then Fin (- 0.5 * real_of_int (int (extent_c inp * block_h g * block_w g)
               - (\<Sum>dc<extent_c inp. \<Sum>di<block_h g. \<Sum>dj<block_w g.
                    drop_of f (patch_value f g inp b dc i j di dj))) * ln (2 * pi))
        else 0)"
  by (simp add: forward_element_def forward_loops zero_fval_def [symmetric])

text \<open>The count left by the loops is the active element count.\<close>

lemma active_count_int:
  "int (active_count f g inp b i j) =
     int (extent_c inp * block_h g * block_w g)
       - (\<Sum>dc<extent_c inp. \<Sum>di<block_h g. \<Sum>dj<block_w g.
            drop_of f (patch_value f g inp b dc i j di dj))"
proof -
  have "int (active_count f g inp b i j) =
      (\<Sum>dc<extent_c inp. \<Sum>di<block_h g. \<Sum>dj<block_w g.
         1 - drop_of f (patch_value f g inp b dc i j di dj))"
  proof -
    have "\<And>p. 1 - drop_of f p = (if ignore_nan_input f \<and> is_nan p then 0 else 1)"
      by (simp add: drop_of_def)
    then show ?thesis
      by (simp add: active_count_def if_distrib [of int] cong: if_cong)
  qed
  also have "\<dots> = int (extent_c inp * block_h g * block_w g)
       - (\<Sum>dc<extent_c inp. \<Sum>di<block_h g. \<Sum>dj<block_w g.
            drop_of f (patch_value f g inp b dc i j di dj))"
    by (simp add: sum_subtractf)
  finally show ?thesis .
qed

subsection \<open>NaN in sums and products\<close>

lemma is_nan_zero [simp]: "\<not> is_nan 0"
  by (simp add: zero_fval_def)

lemma is_nan_plus [simp]: "is_nan (a + b) \<longleftrightarrow> is_nan a \<or> is_nan b"
  by (cases a; cases b) simp_all


lemma is_nan_fmul [simp]: "is_nan (fmul a b) \<longleftrightarrow> is_nan a \<or> is_nan b"
  by (cases a; cases b) simp_all

lemma is_nan_phi [simp]: "is_nan (phi mode a b) \<longleftrightarrow> is_nan a \<or> is_nan b"
  by (cases mode; cases a; cases b) simp_all

lemma patch_value_normalization_term [simp]:
  "patch_value (f\<lparr>normalization_term := v\<rparr>) g inp b dc i j di dj =
   patch_value f g inp b dc i j di dj"
  by (simp add: patch_value_def split: prod.splits)

lemma ln_2pi_pos: "0 < ln (2 * pi)"
proof -
  have "1 < 2 * pi" using pi_ge_two by simp
  then show ?thesis by (rule ln_gt_zero)
qed

lemmas example_defs =
  default_flags_def constant_tensor_def geometry_3x3_def nan_corner_tensor_def
  patch_value_def patch_map_def zero_fval_def numeral_3_eq_3 lessThan_Suc

subsection \<open>The basic equation\<close>

text \<open>
  Claim C1, as the specification of the kernel has it. When \<^verbatim>\<open>normalization_term\<close>
  is off, and \<^verbatim>\<open>ignore_nan_input\<close> is off or no patch value of the window is NaN,
  the output element \<open>(b, c, i, j)\<close> is the sum over all offsets \<open>(dc, di, dj)\<close>
  of \<open>weights[c,dc,di,dj]\<close> times the distance \<open>phi\<close> (L1 or L2 by the mode) of
  \<open>templates[c,dc,di,dj]\<close> and the patch value sampled at the input coordinate
  \<open>(stride_h * i + di - pad_h, stride_w * j + dj - pad_w)\<close>, where a coordinate
  outside the input yields \<^verbatim>\<open>out_of_bounds_value\<close>.
\<close>

theorem forward_element_basic_sum:
  assumes "\<not> normalization_term f"
    and "ignore_nan_input f \<longrightarrow>
           (\<forall>dc<extent_c inp. \<forall>di<block_h g. \<forall>dj<block_w g.
              \<not> is_nan (patch_value f g inp b dc i j di dj))"
  shows "forward_element f mode g inp templates weights b c i j =
     (\<Sum>dc<extent_c inp. \<Sum>di<block_h g. \<Sum>dj<block_w g.
        fmul (phi mode (patch_value f g inp b dc i j di dj) (element templates c dc di dj))
          (element weights c dc di dj))"
proof -
  have "term_of f mode (patch_value f g inp b dc i j di dj)
          (element templates c dc di dj) (element weights c dc di dj) =
        fmul (phi mode (patch_value f g inp b dc i j di dj) (element templates c dc di dj))
          (element weights c dc di dj)"
    if "dc < extent_c inp" and "di < block_h g" and "dj < block_w g" for dc di dj
    using assms(2) that by (auto simp add: term_of_def)
  then show ?thesis
    using assms(1) by (simp add: forward_element_closed)
qed

text \<open>
  The scenario of section 8: an input of ones, templates of zeros, weights of ones,
  L2 mode; each output element is \<open>- 9\<close>.
\<close>

theorem forward_element_basic_sum_witness:
  "forward_element default_flags L2 geometry_3x3 (constant_tensor 1 1 4 4 (Fin 1))
     (constant_tensor 1 1 3 3 (Fin 0)) (constant_tensor 1 1 3 3 (Fin 1)) 0 0 1 1 = Fin (- 9)"
  using forward_element_basic_sum [where f = default_flags and mode = L2 and g = geometry_3x3
      and inp = "constant_tensor 1 1 4 4 (Fin 1)" and templates = "constant_tensor 1 1 3 3 (Fin 0)"
      and weights = "constant_tensor 1 1 3 3 (Fin 1)" and b = 0 and c = 0 and i = 1 and j = 1]
  by (simp add: example_defs)

text \<open>
  The same scenario with \<^verbatim>\<open>normalization_term\<close> set: the output differs from the sum
  by the normalization term. And with \<^verbatim>\<open>ignore_nan_input\<close> set on an input with a
  NaN in the window: the output is \<open>- 8\<close>, the sum over all offsets is NaN.
\<close>

theorem forward_element_flags_counterexample:
  "forward_element (default_flags\<lparr>normalization_term := True\<rparr>) L2 geometry_3x3
       (constant_tensor 1 1 4 4 (Fin 1)) (constant_tensor 1 1 3 3 (Fin 0))
       (constant_tensor 1 1 3 3 (Fin 1)) 0 0 1 1
     = Fin (- 9 - 4.5 * ln (2 * pi)) \<and>
   (\<Sum>dc<1. \<Sum>di<3. \<Sum>dj<3.
        fmul (phi L2 (patch_value (default_flags\<lparr>normalization_term := True\<rparr>) geometry_3x3
                 (constant_tensor 1 1 4 4 (Fin 1)) 0 dc 1 1 di dj)
               (element (constant_tensor 1 1 3 3 (Fin 0)) 0 dc di dj))
          (element (constant_tensor 1 1 3 3 (Fin 1)) 0 dc di dj)) = Fin (- 9) \<and>
   Fin (- 9 - 4.5 * ln (2 * pi)) \<noteq> Fin (- 9) \<and>
   forward_element (default_flags\<lparr>ignore_nan_input := True\<rparr>) L2 geometry_3x3
       nan_corner_tensor (constant_tensor 1 1 3 3 (Fin 0))
       (constant_tensor 1 1 3 3 (Fin 1)) 0 0 0 0
     = Fin (- 8) \<and>
   (\<Sum>dc<1. \<Sum>di<3. \<Sum>dj<3.
        fmul (phi L2 (patch_value (default_flags\<lparr>ignore_nan_input := True\<rparr>) geometry_3x3
                 nan_corner_tensor 0 dc 0 0 di dj)
               (element (constant_tensor 1 1 3 3 (Fin 0)) 0 dc di dj))
          (element (constant_tensor 1 1 3 3 (Fin 1)) 0 dc di dj)) = NaN"
  using ln_2pi_pos
  by (simp add: forward_element_closed term_of_def drop_of_def example_defs)

subsection \<open>The normalization term\<close>

text \<open>
  Claim C9. When \<^verbatim>\<open>normalization_term\<close> is set, the forward computation adds
  exactly \<open>-0.5 * K * log(2*pi)\<close> to the accumulated sum of each output element,
  where \<open>K\<close> is the active element count: the full block size \<open>Cin * Bh * Bw\<close>,
  or the number of elements whose patch value is not NaN when \<^verbatim>\<open>ignore_nan_input\<close>
  is set as well.
\<close>

theorem forward_element_normalization_term:
  assumes "normalization_term f"
  shows "forward_element f mode g inp templates weights b c i j =
           forward_element (f\<lparr>normalization_term := False\<rparr>) mode g inp templates weights b c i j
           + Fin (- 0.5 * real (active_count f g inp b i j) * ln (2 * pi)) \<and>
         active_count f g inp b i j =
           (if ignore_nan_input f
            then (\<Sum>dc<extent_c inp. \<Sum>di<block_h g. \<Sum>dj<block_w g.
                    if is_nan (patch_value f g inp b dc i j di dj) then 0 else 1)
            else extent_c inp * block_h g * block_w g)"
proof
  have "real (active_count f g inp b i j) = real_of_int (int (active_count f g inp b i j))"
    by simp
  then show "forward_element f mode g inp templates weights b c i j =
           forward_element (f\<lparr>normalization_term := False\<rparr>) mode g inp templates weights b c i j
           + Fin (- 0.5 * real (active_count f g inp b i j) * ln (2 * pi))"
    using assms
    by (simp only: forward_element_closed active_count_int)
       (simp add: term_of_def drop_of_def)
  show "active_count f g inp b i j =
           (if ignore_nan_input f
            then (\<Sum>dc<extent_c inp. \<Sum>di<block_h g. \<Sum>dj<block_w g.
                    if is_nan (patch_value f g inp b dc i j di dj) then 0 else 1)
            else extent_c inp * block_h g * block_w g)"
    by (simp add: active_count_def)
qed

text \<open>
  With both flags set on the input with one NaN in the window: 8 active elements,
  and with \<^verbatim>\<open>ignore_nan_input\<close> off on the input of ones: 9 active elements.
\<close>

theorem forward_element_normalization_term_witness:
  "forward_element (default_flags\<lparr>normalization_term := True, ignore_nan_input := True\<rparr>) L2
       geometry_3x3 nan_corner_tensor (constant_tensor 1 1 3 3 (Fin 0))
       (constant_tensor 1 1 3 3 (Fin 1)) 0 0 0 0
     = Fin (- 8) + Fin (- 0.5 * 8 * ln (2 * pi)) \<and>
   active_count (default_flags\<lparr>normalization_term := True, ignore_nan_input := True\<rparr>)
       geometry_3x3 nan_corner_tensor 0 0 0 = 8 \<and>
   forward_element (default_flags\<lparr>normalization_term := True\<rparr>) L2
       geometry_3x3 (constant_tensor 1 1 4 4 (Fin 1)) (constant_tensor 1 1 3 3 (Fin 0))
       (constant_tensor 1 1 3 3 (Fin 1)) 0 0 1 1
     = Fin (- 9) + Fin (- 0.5 * 9 * ln (2 * pi))"
  using forward_element_normalization_term
      [where f = "default_flags\<lparr>normalization_term := True, ignore_nan_input := True\<rparr>"
        and mode = L2 and g = geometry_3x3 and inp = nan_corner_tensor
        and templates = "constant_tensor 1 1 3 3 (Fin 0)"
        and weights = "constant_tensor 1 1 3 3 (Fin 1)" and b = 0 and c = 0 and i = 0 and j = 0]
    forward_element_normalization_term
      [where f = "default_flags\<lparr>normalization_term := True\<rparr>"
        and mode = L2 and g = geometry_3x3 and inp = "constant_tensor 1 1 4 4 (Fin 1)"
        and templates = "constant_tensor 1 1 3 3 (Fin 0)"
        and weights = "constant_tensor 1 1 3 3 (Fin 1)" and b = 0 and c = 0 and i = 1 and j = 1]
  by (simp add: forward_element_closed term_of_def drop_of_def example_defs)

subsection \<open>Ignoring NaN\<close>




end
